theory Spec2Isabelle
  imports Main
begin

text \<open>
  The package \<open>http_request\<close>: a builder of HTTP requests (\<open>RequestBuilder\<close>) and
  the engine that executes one GET or POST exchange for it (\<open>request\<close>, \<open>Get\<close>,
  \<open>PostJSON\<close>). The libraries the package calls (URL parsing, JSON, gzip, the HTTP
  client, the file system) are parameters of the model, collected in the record
  \<open>host\<close>; what the package does to the outside is recorded in a trace.
\<close>

section \<open>Data model\<close>

text \<open>
  Go strings and byte slices are sequences of bytes; both are modelled by \<open>string\<close>
  (a list of 8-bit characters), so the conversions \<open>string(b)\<close> and \<open>[]byte(s)\<close>
  are the identity. A nil slice and an empty slice agree on everything the code
  observes of them (\<open>len\<close>), and are both the empty list.
\<close>

type_synonym bytes = string

text \<open>
  Errors are values. \<open>ErrRedirect\<close> is the package variable
  \<open>errors.New("redirect")\<close>; \<open>LibErr\<close> is an error produced by a library the
  package calls (identified by its message); \<open>Errorf\<close> is \<open>fmt.Errorf\<close> with a
  message that wraps nothing; \<open>ErrorfW\<close> is \<open>fmt.Errorf\<close> with a trailing
  \<open>%w\<close> verb: the text before it and the wrapped error.
\<close>

datatype err = ErrRedirect | LibErr string | Errorf string | ErrorfW string err

fun Error :: "err \<Rightarrow> string" where
  "Error ErrRedirect = ''redirect''"
| "Error (LibErr m) = m"
| "Error (Errorf m) = m"
| "Error (ErrorfW p e) = p @ Error e"

text \<open>\<open>errors.Is\<close>: the target is found along the chain of wrapped errors.\<close>

fun errors_Is :: "err \<Rightarrow> err \<Rightarrow> bool" where
  "errors_Is (ErrorfW p e) t = (ErrorfW p e = t \<or> errors_Is e t)"
| "errors_Is e t = (e = t)"

text \<open>
  \<open>http.Header\<close> is a map from names to lists of values. It is kept as an association
  list with one entry per name; the order of the entries stands for the order in which
  \<open>range\<close> visits the map, which Go leaves unspecified.
\<close>

type_synonym http_Header = "(string \<times> string list) list"

record http_Request =
  req_ctx :: nat
  Method :: string
  URL :: string
  req_Header :: http_Header
  Body :: "bytes option"

text \<open>
  A response as the client returns it: \<open>resp_Body\<close> is what reading the body stream to
  its end gives, the bytes or a read failure.
\<close>

record http_Response =
  StatusCode :: int
  Status :: string
  resp_Body :: "err + bytes"

datatype transport = NilTransport | ProxyTransport string | UserTransport nat

record http_Client =
  Transport :: transport
  CheckRedirect :: "(http_Request \<Rightarrow> http_Request list \<Rightarrow> err option) option"
  Jar :: "nat option"
  Timeout :: nat

text \<open>
  The builder. \<open>client\<close> is a pointer: \<open>None\<close> is nil, \<open>Some a\<close> the address of a
  client object in the store of the \<open>world\<close> below.
\<close>

record RequestBuilder =
  buildErr :: "err option"
  header :: http_Header
  log :: bool
  logFile :: string
  enableCompress :: bool
  disableRedirect :: bool
  client :: "nat option"

text \<open>
  The \<open>data\<close> argument of a request, an \<open>interface{}\<close>, by the cases the type switch
  tells apart; \<open>DOther\<close> is any other value, known only to the JSON encoder.
\<close>

datatype payload = DNil | DBytes bytes | DRawMessage bytes | DString string | DOther nat

text \<open>
  The \<open>res\<close> argument: nil, a (non-nil) pointer to a \<open>PlainHtml\<close> variable, or
  any other value, given by the address of the variable the JSON decoder fills.
\<close>

datatype target = RNil | RPlainHtml nat | ROther nat

datatype gval = VPlainHtml string | VOther nat

text \<open>What the code does to the outside, in order.\<close>

datatype event =
    EvWriteFile string bytes
  | EvStderr string
  | EvDo nat http_Request
  | EvDecode bytes target

text \<open>
  The store and the trace. \<open>clients\<close> maps addresses to client objects, \<open>next_addr\<close>
  is the next address to allocate, \<open>DefaultClient\<close> the address held by the variable
  \<open>http.DefaultClient\<close>, \<open>vars\<close> the variables that result targets point to.
\<close>

record world =
  clients :: "nat \<Rightarrow> http_Client"
  next_addr :: nat
  DefaultClient :: nat
  vars :: "nat \<Rightarrow> gval"
  trace :: "event list"

text \<open>
  The host platform: the library functions the package calls, taken as parameters.
  \<open>gz_Copy\<close>, \<open>gz_Flush\<close> and \<open>gz_Close\<close> are the three steps of a gzip writer
  over a buffer (the state of writer and buffer is an opaque byte string), \<open>gz_Bytes\<close>
  the contents of the buffer. \<open>NewRequest_err\<close> is the failure, if any, of
  \<open>http.NewRequestWithContext\<close> on a context, method and URL.
\<close>

record host =
  url_Parse :: "string \<Rightarrow> err + string"
  json_Marshal :: "nat \<Rightarrow> err + bytes"
  gz_Copy :: "bytes \<Rightarrow> err + bytes"
  gz_Flush :: "bytes \<Rightarrow> err + bytes"
  gz_Close :: "bytes \<Rightarrow> err + bytes"
  gz_Bytes :: "bytes \<Rightarrow> bytes"
  NewRequest_err :: "nat \<Rightarrow> string \<Rightarrow> string \<Rightarrow> err option"
  CanonicalMIMEHeaderKey :: "string \<Rightarrow> string"
  strconv_Quote :: "string \<Rightarrow> string"
  ioutil_WriteFile :: "string \<Rightarrow> bytes \<Rightarrow> err option"
  client_Do :: "http_Client \<Rightarrow> http_Request \<Rightarrow> err + http_Response"
  json_Decode :: "bytes \<Rightarrow> gval \<Rightarrow> err option \<times> gval"

section \<open>Header maps\<close>

text \<open>\<open>h[k] = vs\<close> on the map.\<close>

fun map_assign :: "http_Header \<Rightarrow> string \<Rightarrow> string list \<Rightarrow> http_Header" where
  "map_assign [] k vs = [(k, vs)]"
| "map_assign ((k', vs') # h) k vs =
     (if k' = k then (k, vs) # h else (k', vs') # map_assign h k vs)"

text \<open>\<open>h[k]\<close>, nil (the empty list) for a missing name.\<close>

fun map_index :: "http_Header \<Rightarrow> string \<Rightarrow> string list" where
  "map_index [] k = []"
| "map_index ((k', vs') # h) k = (if k' = k then vs' else map_index h k)"

text \<open>\<open>Header.Set\<close> and \<open>Header.Add\<close>: both canonicalise the name first.\<close>

definition Header_Set :: "host \<Rightarrow> http_Header \<Rightarrow> string \<Rightarrow> string \<Rightarrow> http_Header" where
  "Header_Set h m k v = map_assign m (CanonicalMIMEHeaderKey h k) [v]"

definition Header_Add :: "host \<Rightarrow> http_Header \<Rightarrow> string \<Rightarrow> string \<Rightarrow> http_Header" where
  "Header_Add h m k v =
     (let key = CanonicalMIMEHeaderKey h k in map_assign m key (map_index m key @ [v]))"

section \<open>The builder\<close>

definition New :: RequestBuilder where
  "New = \<lparr>buildErr = None, header = [], log = False, logFile = [],
          enableCompress = False, disableRedirect = False, client = None\<rparr>"

definition Header :: "host \<Rightarrow> string \<Rightarrow> string \<Rightarrow> RequestBuilder \<Rightarrow> RequestBuilder" where
  "Header h name v c = c\<lparr>header := Header_Set h (header c) name v\<rparr>"

text \<open>Allocation of a new client object: \<open>&http.Client{...}\<close> and \<open>&clone\<close>.\<close>

definition alloc_client :: "http_Client \<Rightarrow> world \<Rightarrow> nat \<times> world" where
  "alloc_client cl w =
     (next_addr w, w\<lparr>clients := (clients w)(next_addr w := cl), next_addr := Suc (next_addr w)\<rparr>)"

definition WithProxy :: "host \<Rightarrow> string \<Rightarrow> RequestBuilder \<Rightarrow> world \<Rightarrow> RequestBuilder \<times> world" where
  "WithProxy h proxyURL c w =
     (if proxyURL = [] then (c, w)
      else if buildErr c \<noteq> None then (c, w)
      else case url_Parse h proxyURL of
        Inl e \<Rightarrow> (c\<lparr>buildErr := Some e\<rparr>, w)
      | Inr proxyUrl \<Rightarrow>
          (let proxyTransport = ProxyTransport proxyUrl in
           case client c of
             None \<Rightarrow>
               (let (a, w') = alloc_client
                      \<lparr>Transport = proxyTransport, CheckRedirect = None, Jar = None, Timeout = 0\<rparr> w
                in (c\<lparr>client := Some a\<rparr>, w'))
           | Some p \<Rightarrow>
               (let clone = clients w p;
                    clone = clone\<lparr>Transport := proxyTransport\<rparr>;
                    (a, w') = alloc_client clone w
                in (c\<lparr>client := Some a\<rparr>, w'))))"

definition WithClient :: "nat option \<Rightarrow> RequestBuilder \<Rightarrow> RequestBuilder" where
  "WithClient cl c = c\<lparr>client := cl\<rparr>"

definition Compressed :: "RequestBuilder \<Rightarrow> RequestBuilder" where
  "Compressed c = c\<lparr>enableCompress := True\<rparr>"

definition DisableRedirect :: "RequestBuilder \<Rightarrow> RequestBuilder" where
  "DisableRedirect c = c\<lparr>disableRedirect := True\<rparr>"

text \<open>\<open>Log(v ...bool)\<close>: the variadic argument is the list \<open>v\<close>.\<close>

definition Log :: "bool list \<Rightarrow> RequestBuilder \<Rightarrow> RequestBuilder" where
  "Log v c = (if length v > 0 then c\<lparr>log := v ! 0\<rparr> else c\<lparr>log := True\<rparr>)"

definition LogFile :: "string \<Rightarrow> RequestBuilder \<Rightarrow> RequestBuilder" where
  "LogFile f c = c\<lparr>logFile := f\<rparr>"

section \<open>Formatting helpers\<close>

text \<open>The decimal form of an integer, as the verb \<open>%v\<close> prints it.\<close>

fun nat_digits :: "nat \<Rightarrow> string" where
  "nat_digits n =
     (if n < 10 then [''0123456789'' ! n]
      else nat_digits (n div 10) @ [''0123456789'' ! (n mod 10)])"

definition Itoa :: "int \<Rightarrow> string" where
  "Itoa i = (if i < 0 then CHR ''-'' # nat_digits (nat (- i)) else nat_digits (nat i))"

text \<open>\<open>strings.Join\<close>.\<close>

fun Join :: "string list \<Rightarrow> string \<Rightarrow> string" where
  "Join [] sep = []"
| "Join [a] sep = a"
| "Join (a # b # rest) sep = a @ sep @ Join (b # rest) sep"

definition quoteSh :: "host \<Rightarrow> string \<Rightarrow> string" where
  "quoteSh h s =
     (if CHR 0x27 \<notin> set s then [CHR 0x27] @ s @ [CHR 0x27] else strconv_Quote h s)"

definition gzipData :: "host \<Rightarrow> bytes \<Rightarrow> err + bytes" where
  "gzipData h reader =
     (case gz_Copy h reader of
        Inl e \<Rightarrow> Inl e
      | Inr gz1 \<Rightarrow>
          (case gz_Flush h gz1 of
             Inl e \<Rightarrow> Inl e
           | Inr gz2 \<Rightarrow>
               (case gz_Close h gz2 of
                  Inl e \<Rightarrow> Inl e
                | Inr gz3 \<Rightarrow> Inr (gz_Bytes h gz3))))"

section \<open>The execution engine\<close>

text \<open>
  The type switch on \<open>data\<close> (entered when \<open>data\<close> is not nil): the body reader,
  \<open>logDataBytes\<close> and \<open>logDataString\<close>. With nil \<open>data\<close> all three keep their zero
  values.
\<close>

fun switch_data :: "host \<Rightarrow> payload \<Rightarrow> err + (bytes option \<times> bytes \<times> string)" where
  "switch_data h DNil = Inr (None, [], [])"
| "switch_data h (DBytes d) = Inr (Some d, d, [])"
| "switch_data h (DRawMessage d) = Inr (Some d, d, [])"
| "switch_data h (DString s) = Inr (Some s, [], s)"
| "switch_data h (DOther v) =
     (case json_Marshal h v of
        Inl e \<Rightarrow> Inl e
      | Inr dataBytes \<Rightarrow> Inr (Some dataBytes, dataBytes, []))"

text \<open>
  The block that chooses the body: the body reader, \<open>logDataBytes\<close>,
  \<open>logDataString\<close> and \<open>gzipped\<close>.
\<close>

definition prepare_body ::
  "host \<Rightarrow> RequestBuilder \<Rightarrow> bool \<Rightarrow> payload \<Rightarrow> err + (bytes option \<times> bytes \<times> string \<times> bool)" where
  "prepare_body h c post data =
     (if post then
        (case switch_data h data of
           Inl e \<Rightarrow> Inl e
         | Inr (bodyReader, logDataBytes, logDataString) \<Rightarrow>
             (case bodyReader of
                Some b \<Rightarrow>
                  (if enableCompress c then
                     (case gzipData h b of
                        Inl gzErr \<Rightarrow> Inl (Errorf (''compress body err: '' @ Error gzErr))
                      | Inr gz \<Rightarrow> Inr (Some gz, logDataBytes, logDataString, True))
                   else Inr (bodyReader, logDataBytes, logDataString, False))
              | None \<Rightarrow> Inr (bodyReader, logDataBytes, logDataString, False)))
      else Inr (None, [], [], False))"

definition NewRequestWithContext ::
  "host \<Rightarrow> nat \<Rightarrow> string \<Rightarrow> string \<Rightarrow> bytes option \<Rightarrow> err + http_Request" where
  "NewRequestWithContext h ctx method url body =
     (case NewRequest_err h ctx method url of
        Some e \<Rightarrow> Inl e
      | None \<Rightarrow> Inr \<lparr>req_ctx = ctx, Method = method, URL = url, req_Header = [], Body = body\<rparr>)"

text \<open>The two loops that add every configured header value to the request.\<close>

definition apply_headers :: "host \<Rightarrow> http_Header \<Rightarrow> http_Header \<Rightarrow> http_Header" where
  "apply_headers h src dst =
     fold (\<lambda>(name, values) m. fold (\<lambda>v m'. Header_Add h m' name v) values m) src dst"

text \<open>The rendered command line.\<close>

definition curl_command ::
  "host \<Rightarrow> string \<Rightarrow> http_Header \<Rightarrow> bytes \<Rightarrow> string \<Rightarrow> string \<Rightarrow> string" where
  "curl_command h method hdr logDataBytes logDataString url =
     (let args = [''curl'', ''-v'', ''-X'', method];
          args = args @ concat (map (\<lambda>(k, v).
                   concat (map (\<lambda>e. [''-H'', [CHR 0x22] @ k @ '': '' @ e @ [CHR 0x22]]) v)) hdr);
          args = (if length logDataBytes > 0 then args @ [''--data-binary'', quoteSh h logDataBytes]
                  else if length logDataString > 0 then args @ [''--data-binary'', quoteSh h logDataString]
                  else args);
          args = args @ [quoteSh h url]
      in Join args '' '')"

text \<open>Writing the command line to the log file and to the console.\<close>

definition write_log :: "host \<Rightarrow> RequestBuilder \<Rightarrow> string \<Rightarrow> world \<Rightarrow> err option \<times> world" where
  "write_log h c cmdLog w =
     (let (failed, w1) =
            (if logFile c \<noteq> [] then
               (ioutil_WriteFile h (logFile c) cmdLog,
                w\<lparr>trace := trace w @ [EvWriteFile (logFile c) cmdLog]\<rparr>)
             else (None, w))
      in case failed of
           Some e \<Rightarrow> (Some (ErrorfW ''log err: '' e), w1)
         | None \<Rightarrow>
             (if log c then
                (None, w1\<lparr>trace := trace w1 @ [EvStderr (''HTTP DEBUG: '' @ cmdLog @ [CHR 0x0A])]\<rparr>)
              else (None, w1)))"

text \<open>
  The client to use: the configured one or the default, and with redirects disabled a
  copy of it whose \<open>CheckRedirect\<close> is the function that returns \<open>ErrRedirect\<close>.
\<close>

definition resolve_client :: "RequestBuilder \<Rightarrow> world \<Rightarrow> nat \<times> world" where
  "resolve_client c w =
     (let cl = (case client c of None \<Rightarrow> DefaultClient w | Some p \<Rightarrow> p) in
      if disableRedirect c then
        (let cloneClient = clients w cl;
             cloneClient = cloneClient\<lparr>CheckRedirect := Some (\<lambda>req via. Some ErrRedirect)\<rparr>
         in alloc_client cloneClient w)
      else (cl, w))"

text \<open>
  The call of the client, the reading of the body and the status check. When the body
  is not needed it is drained and dropped, whatever the draining gives. The deferred
  closing of the body changes nothing that is returned and is not recorded.
\<close>

definition dispatch ::
  "host \<Rightarrow> nat \<Rightarrow> http_Request \<Rightarrow> bool \<Rightarrow> world \<Rightarrow> (err + bytes) \<times> world" where
  "dispatch h cl httpReq needData w =
     (let w' = w\<lparr>trace := trace w @ [EvDo cl httpReq]\<rparr> in
      case client_Do h (clients w cl) httpReq of
        Inl e \<Rightarrow> (Inl e, w')
      | Inr httpResp \<Rightarrow>
          (case (if needData then resp_Body httpResp else Inr []) of
             Inl e \<Rightarrow> (Inl e, w')
           | Inr body \<Rightarrow>
               (if StatusCode httpResp \<ge> 300 then
                  (Inl (Errorf (''response err: '' @ Itoa (StatusCode httpResp) @ '' ''
                                @ Status httpResp @ '' '' @ body)), w')
                else (Inr body, w'))))"

definition request ::
  "host \<Rightarrow> RequestBuilder \<Rightarrow> nat \<Rightarrow> string \<Rightarrow> bool \<Rightarrow> payload \<Rightarrow> bool \<Rightarrow> world
     \<Rightarrow> (err + bytes) \<times> world" where
  "request h c ctx url post data needData w =
     (case buildErr c of
        Some e \<Rightarrow> (Inl e, w)
      | None \<Rightarrow>
          (let needLog = (log c \<or> logFile c \<noteq> []);
               jsonContent = post;
               method = (if post then ''POST'' else ''GET'')
           in case prepare_body h c post data of
                Inl e \<Rightarrow> (Inl e, w)
              | Inr (bodyReader, logDataBytes, logDataString, gzipped) \<Rightarrow>
                  (case NewRequestWithContext h ctx method url bodyReader of
                     Inl e \<Rightarrow> (Inl e, w)
                   | Inr httpReq \<Rightarrow>
                       (let httpReq = httpReq\<lparr>req_Header :=
                                        apply_headers h (header c) (req_Header httpReq)\<rparr>;
                            httpReq = (if jsonContent then
                                         httpReq\<lparr>req_Header := Header_Set h (req_Header httpReq)
                                                    ''Content-Type'' ''application/json''\<rparr>
                                       else httpReq);
                            (failed, w1) =
                              (if needLog then
                                 write_log h c (curl_command h method (req_Header httpReq)
                                                  logDataBytes logDataString url) w
                               else (None, w))
                        in case failed of
                             Some e \<Rightarrow> (Inl e, w1)
                           | None \<Rightarrow>
                               (let httpReq = (if gzipped then
                                                 httpReq\<lparr>req_Header := Header_Set h (req_Header httpReq)
                                                            ''Content-Encoding'' ''gzip''\<rparr>
                                               else httpReq);
                                    (cl, w2) = resolve_client c w1
                                in dispatch h cl httpReq needData w2)))))"

section \<open>Terminal operations\<close>

text \<open>
  \<open>unmarshalSafeNumber\<close>: the decoder runs on the body and the variable behind the
  target; with a nil target there is no variable to fill.
\<close>

definition unmarshalSafeNumber :: "host \<Rightarrow> bytes \<Rightarrow> target \<Rightarrow> world \<Rightarrow> err option \<times> world" where
  "unmarshalSafeNumber h body res w =
     (let w' = w\<lparr>trace := trace w @ [EvDecode body res]\<rparr> in
      case res of
        RNil \<Rightarrow> (fst (json_Decode h body (VOther 0)), w')
      | RPlainHtml p \<Rightarrow>
          (let (e, v) = json_Decode h body (vars w p) in (e, w'\<lparr>vars := (vars w)(p := v)\<rparr>))
      | ROther p \<Rightarrow>
          (let (e, v) = json_Decode h body (vars w p) in (e, w'\<lparr>vars := (vars w)(p := v)\<rparr>)))"

text \<open>\<open>PostJSON\<close> and \<open>Get\<close> as declared beside \<open>ErrRedirect\<close> and \<open>PlainHtml\<close>.\<close>

definition PostJSON ::
  "host \<Rightarrow> RequestBuilder \<Rightarrow> nat \<Rightarrow> string \<Rightarrow> payload \<Rightarrow> target \<Rightarrow> world \<Rightarrow> err option \<times> world" where
  "PostJSON h c ctx url data res w =
     (case request h c ctx url True data (res \<noteq> RNil) w of
        (Inl e, w') \<Rightarrow> (Some e, w')
      | (Inr body, w') \<Rightarrow>
          (if res = RNil \<or> length body = 0 then (None, w')
           else case res of
             RPlainHtml p \<Rightarrow> (None, w'\<lparr>vars := (vars w')(p := VPlainHtml body)\<rparr>)
           | _ \<Rightarrow> unmarshalSafeNumber h body res w'))"

definition Get ::
  "host \<Rightarrow> RequestBuilder \<Rightarrow> nat \<Rightarrow> string \<Rightarrow> target \<Rightarrow> world \<Rightarrow> err option \<times> world" where
  "Get h c ctx url res w =
     (case request h c ctx url False DNil (res \<noteq> RNil) w of
        (Inl e, w') \<Rightarrow> (Some e, w')
      | (Inr body, w') \<Rightarrow>
          (if res = RNil \<or> length body = 0 then (None, w')
           else case res of
             RPlainHtml p \<Rightarrow> (None, w'\<lparr>vars := (vars w')(p := VPlainHtml body)\<rparr>)
           | _ \<Rightarrow> unmarshalSafeNumber h body res w'))"

text \<open>\<open>PostJSON\<close> and \<open>Get\<close> as declared in \<open>request.go\<close>.\<close>

definition PostJSON_request_go ::
  "host \<Rightarrow> RequestBuilder \<Rightarrow> nat \<Rightarrow> string \<Rightarrow> payload \<Rightarrow> target \<Rightarrow> world \<Rightarrow> err option \<times> world" where
  "PostJSON_request_go h c ctx url data res w =
     (case request h c ctx url True data (res \<noteq> RNil) w of
        (Inl e, w') \<Rightarrow> (Some e, w')
      | (Inr body, w') \<Rightarrow>
          (if res = RNil \<or> length body = 0 then (None, w')
           else unmarshalSafeNumber h body res w'))"

definition Get_request_go ::
  "host \<Rightarrow> RequestBuilder \<Rightarrow> nat \<Rightarrow> string \<Rightarrow> target \<Rightarrow> world \<Rightarrow> err option \<times> world" where
  "Get_request_go h c ctx url res w =
     (case request h c ctx url False DNil (res \<noteq> RNil) w of
        (Inl e, w') \<Rightarrow> (Some e, w')
      | (Inr body, w') \<Rightarrow>
          (if res = RNil \<or> length body = 0 then (None, w')
           else unmarshalSafeNumber h body res w'))"

section \<open>An example host\<close>

text \<open>
  A small host and an initial store, on which the theorems below are evaluated. The
  store holds the default client at address 0.
\<close>

definition demo_host :: host where
  \<open>demo_host =
     \<lparr>url_Parse = (\<lambda>s. if take 1 s = '':'' then Inl (LibErr ''missing protocol scheme'') else Inr s),
      json_Marshal = (\<lambda>v. if v = 0 then Inl (LibErr ''json: unsupported type'') else Inr ''{"a":1}''),
      gz_Copy = (\<lambda>b. Inr (''gz('' @ b)),
      gz_Flush = (\<lambda>s. Inr s),
      gz_Close = (\<lambda>s. Inr (s @ '')'')),
      gz_Bytes = (\<lambda>s. s),
      NewRequest_err = (\<lambda>ctx m u. if CHR '' '' \<in> set u then Some (LibErr ''invalid character in host name'') else None),
      CanonicalMIMEHeaderKey = (\<lambda>k. if k = ''content-type'' \<or> k = ''CONTENT-TYPE'' then ''Content-Type'' else k),
      strconv_Quote = (\<lambda>s. [CHR 0x22] @ s @ [CHR 0x22]),
      ioutil_WriteFile = (\<lambda>p b. None),
      client_Do = (\<lambda>cl rq. Inr \<lparr>StatusCode = 200, Status = ''200 OK'', resp_Body = Inr ''{"ok":true}''\<rparr>),
      json_Decode = (\<lambda>b v. (None, VOther (length b)))\<rparr>\<close>

definition demo_world :: world where
  "demo_world =
     \<lparr>clients = (\<lambda>a. \<lparr>Transport = NilTransport, CheckRedirect = None, Jar = None, Timeout = 0\<rparr>),
      next_addr = 1, DefaultClient = 0, vars = (\<lambda>a. VOther 0), trace = []\<rparr>"

text \<open>The builder after a proxy URL that does not parse.\<close>

definition poisoned :: RequestBuilder where
  "poisoned = fst (WithProxy demo_host '':bad'' New demo_world)"

text \<open>A client object supplied by the caller, at address 1 of the store.\<close>

definition caller_client :: http_Client where
  "caller_client = \<lparr>Transport = UserTransport 7, CheckRedirect = None, Jar = Some 3, Timeout = 30\<rparr>"

definition caller_world :: world where
  "caller_world = demo_world\<lparr>clients := (clients demo_world)(1 := caller_client), next_addr := 2\<rparr>"

section \<open>Notions used in the statements\<close>

text \<open>
  The method of the request; the header of the request once the configured headers and
  the content type are applied, which is the header the log shows; the events a
  successful logging step adds to the trace; and the requests handed to a client, with
  the address of the client, as the trace records them.
\<close>

definition method_name :: "bool \<Rightarrow> string" where
  "method_name post = (if post then ''POST'' else ''GET'')"

definition assembled_header :: "host \<Rightarrow> RequestBuilder \<Rightarrow> bool \<Rightarrow> http_Header" where
  "assembled_header h c post =
     (let m = apply_headers h (header c) [] in
      if post then Header_Set h m ''Content-Type'' ''application/json'' else m)"

definition log_events :: "RequestBuilder \<Rightarrow> string \<Rightarrow> event list" where
  "log_events c cmdLog =
     (if logFile c \<noteq> [] then [EvWriteFile (logFile c) cmdLog] else [])
     @ (if log c then [EvStderr (''HTTP DEBUG: '' @ cmdLog @ [CHR 0x0A])] else [])"

fun dispatched :: "event list \<Rightarrow> (nat \<times> http_Request) list" where
  "dispatched [] = []"
| "dispatched (EvDo a rq # es) = (a, rq) # dispatched es"
| "dispatched (e # es) = dispatched es"

text \<open>Hosts on which a request fails in one way or another.\<close>

definition not_found_host :: host where
  "not_found_host = demo_host\<lparr>client_Do :=
     (\<lambda>cl rq. Inr \<lparr>StatusCode = 404, Status = ''404 Not Found'', resp_Body = Inr ''not found''\<rparr>)\<rparr>"

definition disk_full_host :: host where
  "disk_full_host = demo_host\<lparr>ioutil_WriteFile := (\<lambda>p b. Some (LibErr ''no space left on device''))\<rparr>"

definition redirecting_host :: host where
  \<open>redirecting_host = demo_host\<lparr>client_Do :=
     (\<lambda>cl rq. case CheckRedirect cl of
        None \<Rightarrow> Inr \<lparr>StatusCode = 200, Status = ''200 OK'', resp_Body = Inr ''moved here''\<rparr>
      | Some hk \<Rightarrow>
          (case hk (rq\<lparr>URL := ''http://example.com/new''\<rparr>) [rq] of
             None \<Rightarrow> Inr \<lparr>StatusCode = 200, Status = ''200 OK'', resp_Body = Inr ''moved here''\<rparr>
           | Some e \<Rightarrow> Inl (ErrorfW ''Get "http://example.com/new": '' e)))\<rparr>\<close>

section \<open>Header replacement\<close>

lemma map_assign_twice: "map_assign (map_assign m k a) k b = map_assign m k b"
  by (induction m) auto

lemma map_index_assign: "map_index (map_assign m k a) k = a"
  by (induction m) auto

lemma map_assign_keys: "map fst (map_assign m k a) = (if k \<in> fst ` set m then map fst m else map fst m @ [k])"
  by (induction m) force+

lemma map_assign_distinct: "distinct (map fst m) \<Longrightarrow> distinct (map fst (map_assign m k a))"
  by (simp add: map_assign_keys)

lemma Header_distinct:
  "distinct (map fst (header c)) \<Longrightarrow> distinct (map fst (header (Header h name v c)))"
  by (simp add: Header_def Header_Set_def map_assign_distinct)

lemma map_assign_entries:
  "distinct (map fst m) \<Longrightarrow> filter (\<lambda>p. fst p = k) (map_assign m k a) = [(k, a)]"
proof (induction m)
  case Nil
  then show ?case by simp
next
  case (Cons p m)
  show ?case
  proof (cases "fst p = k")
    case True
    have "fst p \<notin> fst ` set m" using Cons.prems by simp
    then have "filter (\<lambda>q. fst q = k) m = []"
      unfolding True by (induction m) auto
    with True show ?thesis by (cases p) simp
  next
    case False
    with Cons show ?thesis by (cases p) simp
  qed
qed

text \<open>
  C9. Calling \<open>Header\<close> twice for the same name, or for two names with the same
  canonical form (the form under which the header map files a name, which is how letter
  case is ignored), leaves the builder as a single call with the later value would: the
  name holds exactly the later value, in a single entry.
\<close>

theorem Header_latest_value:
  assumes "CanonicalMIMEHeaderKey h n1 = CanonicalMIMEHeaderKey h n2"
  shows "Header h n2 v2 (Header h n1 v1 c) = Header h n2 v2 c
       \<and> map_index (header (Header h n2 v2 (Header h n1 v1 c))) (CanonicalMIMEHeaderKey h n2) = [v2]
       \<and> (distinct (map fst (header c)) \<longrightarrow>
            filter (\<lambda>p. fst p = CanonicalMIMEHeaderKey h n2) (header (Header h n2 v2 (Header h n1 v1 c)))
              = [(CanonicalMIMEHeaderKey h n2, [v2])])"
  using assms
  by (simp add: Header_def Header_Set_def map_assign_twice map_index_assign map_assign_entries)

theorem Header_latest_value_witness:
  "CanonicalMIMEHeaderKey demo_host ''content-type'' = CanonicalMIMEHeaderKey demo_host ''Content-Type''
   \<and> distinct (map fst (header New))
   \<and> header (Header demo_host ''Content-Type'' ''b'' (Header demo_host ''content-type'' ''a'' New)) = [(''Content-Type'', [''b''])]"
  using Header_latest_value[of demo_host "''content-type''" "''Content-Type''" "''b''" "''a''" New]
  by (simp add: demo_host_def Header_def Header_Set_def New_def)

section \<open>The sticky configuration error\<close>

lemma request_buildErr: "buildErr c = Some e \<Longrightarrow> request h c ctx url post data needData w = (Inl e, w)"
  by (simp add: request_def)

text \<open>
  C1, as stated, fails: on a builder whose \<open>buildErr\<close> is set, \<open>Header\<close> and
  \<open>Compressed\<close> still change the builder.
\<close>

theorem sticky_error_counterexample:
  "buildErr poisoned = Some (LibErr ''missing protocol scheme'')
   \<and> Header demo_host ''X-Trace'' ''1'' poisoned \<noteq> poisoned
   \<and> Compressed poisoned \<noteq> poisoned"
  by (simp add: poisoned_def WithProxy_def demo_host_def New_def Header_def Header_Set_def Compressed_def)

text \<open>
  C1, amended. Once \<open>buildErr\<close> is set, \<open>WithProxy\<close> changes nothing, no
  configuration call changes or clears \<open>buildErr\<close>, and \<open>request\<close>, \<open>Get\<close> and
  \<open>PostJSON\<close> return that same error and leave the world as it was: nothing is
  written, printed or sent.
\<close>

theorem sticky_error:
  assumes "buildErr c = Some e"
  shows "WithProxy h proxyURL c w = (c, w)
       \<and> buildErr (Header h name v c) = Some e
       \<and> buildErr (WithClient cl c) = Some e
       \<and> buildErr (Compressed c) = Some e
       \<and> buildErr (DisableRedirect c) = Some e
       \<and> buildErr (Log bs c) = Some e
       \<and> buildErr (LogFile f c) = Some e
       \<and> request h c ctx url post data needData w = (Inl e, w)
       \<and> Get h c ctx url res w = (Some e, w)
       \<and> PostJSON h c ctx url data res w = (Some e, w)"
  using assms
  by (simp add: WithProxy_def Header_def WithClient_def Compressed_def DisableRedirect_def
      Log_def LogFile_def request_buildErr Get_def PostJSON_def)

theorem sticky_error_witness:
  "buildErr poisoned = Some (LibErr ''missing protocol scheme'')
   \<and> WithProxy demo_host ''http://proxy:8080'' poisoned demo_world = (poisoned, demo_world)
   \<and> Get demo_host poisoned 0 ''http://example.com'' (ROther 1) demo_world
       = (Some (LibErr ''missing protocol scheme''), demo_world)"
proof -
  have e: "buildErr poisoned = Some (LibErr ''missing protocol scheme'')"
    by (simp add: poisoned_def WithProxy_def demo_host_def New_def)
  show ?thesis
    using e sticky_error[OF e, of demo_host "''http://proxy:8080''" demo_world] 
      sticky_error[OF e, of demo_host _ demo_world _ _ _ _ _ 0 "''http://example.com''" _ _ _ "ROther 1"]
    by simp
qed

section \<open>The two declarations of the terminal operations\<close>

text \<open>
  C10. For a result target that is not a \<open>PlainHtml\<close> pointer, \<open>PostJSON\<close> and
  \<open>Get\<close> of \<open>request.go\<close> return the same error and the same world as the pair
  declared beside \<open>PlainHtml\<close>.
\<close>

theorem request_go_agrees:
  assumes "\<forall>p. res \<noteq> RPlainHtml p"
  shows "PostJSON_request_go h c ctx url data res w = PostJSON h c ctx url data res w
       \<and> Get_request_go h c ctx url res w = Get h c ctx url res w"
  using assms
  by (cases res)
     (simp_all add: PostJSON_request_go_def PostJSON_def Get_request_go_def Get_def
        split: prod.splits sum.splits)


theorem request_go_agrees_witness:
  "(\<forall>p. ROther 1 \<noteq> RPlainHtml p)
   \<and> PostJSON_request_go demo_host New 0 ''http://example.com'' (DString ''hi'') (ROther 1) demo_world
       = PostJSON demo_host New 0 ''http://example.com'' (DString ''hi'') (ROther 1) demo_world
   \<and> fst (PostJSON demo_host New 0 ''http://example.com'' (DString ''hi'') (ROther 1) demo_world) = None
   \<and> vars (snd (PostJSON demo_host New 0 ''http://example.com'' (DString ''hi'') (ROther 1) demo_world)) 1
       = VOther 11"
proof -
  have n: "\<forall>p. ROther 1 \<noteq> RPlainHtml p" by simp
  have "fst (PostJSON demo_host New 0 ''http://example.com'' (DString ''hi'') (ROther 1) demo_world) = None
     \<and> vars (snd (PostJSON demo_host New 0 ''http://example.com'' (DString ''hi'') (ROther 1) demo_world)) 1
       = VOther 11"
    by (simp add: PostJSON_def request_def prepare_body_def NewRequestWithContext_def
        apply_headers_def Header_Set_def resolve_client_def dispatch_def unmarshalSafeNumber_def
        demo_host_def demo_world_def New_def)
  then show ?thesis
    using n request_go_agrees[OF n, of demo_host New 0 "''http://example.com''" "DString ''hi''" demo_world]
    by simp
qed

text \<open>On a \<open>PlainHtml\<close> target the two declarations can differ.\<close>

lemma request_go_differs_on_PlainHtml:
  "vars (snd (Get demo_host New 0 ''http://example.com'' (RPlainHtml 1) demo_world)) 1
     \<noteq> vars (snd (Get_request_go demo_host New 0 ''http://example.com'' (RPlainHtml 1) demo_world)) 1"
  by (simp add: Get_def Get_request_go_def request_def prepare_body_def NewRequestWithContext_def
      apply_headers_def resolve_client_def dispatch_def unmarshalSafeNumber_def
      demo_host_def demo_world_def New_def)

section \<open>The proxy and the client object\<close>

text \<open>
  C7. On a builder without a stored error, \<open>WithProxy\<close> with a non-empty URL that
  parses makes the builder point to a newly allocated client object: a client with only
  the proxy transport when no client was configured, otherwise a copy of the configured
  client that differs from it in the transport alone. No object that was in the store
  before the call is changed, and no other field of the builder. With the empty URL the
  builder and the store are returned as they were.
\<close>

theorem WithProxy_clones_client:
  assumes "buildErr c = None" and "proxyURL \<noteq> []" and "url_Parse h proxyURL = Inr u"
  shows "fst (WithProxy h proxyURL c w) = c\<lparr>client := Some (next_addr w)\<rparr>
       \<and> clients (snd (WithProxy h proxyURL c w)) (next_addr w) =
           (case client c of
              None \<Rightarrow> \<lparr>Transport = ProxyTransport u, CheckRedirect = None, Jar = None, Timeout = 0\<rparr>
            | Some p \<Rightarrow> (clients w p)\<lparr>Transport := ProxyTransport u\<rparr>)
       \<and> (\<forall>a. a \<noteq> next_addr w \<longrightarrow> clients (snd (WithProxy h proxyURL c w)) a = clients w a)
       \<and> next_addr (snd (WithProxy h proxyURL c w)) = Suc (next_addr w)
       \<and> WithProxy h [] c' w = (c', w)"
  using assms
  by (auto simp: WithProxy_def alloc_client_def Let_def split: option.splits)

theorem WithProxy_clones_client_witness:
  "buildErr (WithClient (Some 1) New) = None \<and> ''http://proxy:8080'' \<noteq> []
   \<and> url_Parse demo_host ''http://proxy:8080'' = Inr ''http://proxy:8080''
   \<and> client (fst (WithProxy demo_host ''http://proxy:8080'' (WithClient (Some 1) New) caller_world)) = Some 2
   \<and> clients (snd (WithProxy demo_host ''http://proxy:8080'' (WithClient (Some 1) New) caller_world)) 2
       = \<lparr>Transport = ProxyTransport ''http://proxy:8080'', CheckRedirect = None, Jar = Some 3, Timeout = 30\<rparr>
   \<and> clients (snd (WithProxy demo_host ''http://proxy:8080'' (WithClient (Some 1) New) caller_world)) 1
       = caller_client"
proof -
  have a: "buildErr (WithClient (Some 1) New) = None" by (simp add: WithClient_def New_def)
  have b: "''http://proxy:8080'' \<noteq> []" by simp
  have c: "url_Parse demo_host ''http://proxy:8080'' = Inr ''http://proxy:8080''"
    by (simp add: demo_host_def)
  show ?thesis
    using a b c WithProxy_clones_client[OF a b c, of caller_world]
    by (simp add: WithClient_def New_def caller_world_def caller_client_def demo_world_def)
qed

section \<open>Decoding the response\<close>

text \<open>The definitions that evaluating \<open>request\<close> on a concrete input unfolds.\<close>

lemmas request_eval = request_def prepare_body_def NewRequestWithContext_def
        apply_headers_def Header_Set_def resolve_client_def dispatch_def curl_command_def write_log_def
        quoteSh_def gzipData_def Header_Add_def alloc_client_def Itoa_def

text \<open>
  C8. When \<open>request\<close> has returned a body: with a nil target or an empty body,
  \<open>Get\<close> and \<open>PostJSON\<close> return no error and the world that \<open>request\<close>
  left, so the decoder has not run and no variable was written; with a \<open>PlainHtml\<close>
  pointer and a body that is not empty, they return no error and the only change to that
  world is that the variable behind the pointer holds the body, byte for byte: the
  trace gains no decoding event.
\<close>

theorem decode_skipped_or_verbatim:
  "(request h c ctx url False DNil (res \<noteq> RNil) w = (Inr body, w') \<longrightarrow> res = RNil \<or> body = []
      \<longrightarrow> Get h c ctx url res w = (None, w'))
 \<and> (request h c ctx url True data (res \<noteq> RNil) w = (Inr body, w') \<longrightarrow> res = RNil \<or> body = []
      \<longrightarrow> PostJSON h c ctx url data res w = (None, w'))
 \<and> (request h c ctx url False DNil True w = (Inr body, w') \<longrightarrow> body \<noteq> []
      \<longrightarrow> Get h c ctx url (RPlainHtml p) w = (None, w'\<lparr>vars := (vars w')(p := VPlainHtml body)\<rparr>))
 \<and> (request h c ctx url True data True w = (Inr body, w') \<longrightarrow> body \<noteq> []
      \<longrightarrow> PostJSON h c ctx url data (RPlainHtml p) w
            = (None, w'\<lparr>vars := (vars w')(p := VPlainHtml body)\<rparr>))"
  by (auto simp: Get_def PostJSON_def)

theorem decode_skipped_or_verbatim_witness:
  \<open>request demo_host New 0 ''http://example.com'' False DNil False demo_world
     = (Inr [], demo_world\<lparr>trace := [EvDo 0 \<lparr>req_ctx = 0, Method = ''GET'', URL = ''http://example.com'',
                                              req_Header = [], Body = None\<rparr>]\<rparr>)
   \<and> Get demo_host New 0 ''http://example.com'' RNil demo_world
     = (None, demo_world\<lparr>trace := [EvDo 0 \<lparr>req_ctx = 0, Method = ''GET'', URL = ''http://example.com'',
                                              req_Header = [], Body = None\<rparr>]\<rparr>)
   \<and> request demo_host New 0 ''http://example.com'' False DNil True demo_world
     = (Inr ''{"ok":true}'', demo_world\<lparr>trace := [EvDo 0 \<lparr>req_ctx = 0, Method = ''GET'', URL = ''http://example.com'',
                                              req_Header = [], Body = None\<rparr>]\<rparr>)
   \<and> vars (snd (Get demo_host New 0 ''http://example.com'' (RPlainHtml 5) demo_world)) 5
     = VPlainHtml ''{"ok":true}''
   \<and> trace (snd (Get demo_host New 0 ''http://example.com'' (RPlainHtml 5) demo_world))
     = [EvDo 0 \<lparr>req_ctx = 0, Method = ''GET'', URL = ''http://example.com'', req_Header = [], Body = None\<rparr>]\<close>
proof -
  let ?w = \<open>demo_world\<lparr>trace := [EvDo 0 \<lparr>req_ctx = 0, Method = ''GET'', URL = ''http://example.com'',
                                              req_Header = [], Body = None\<rparr>]\<rparr>\<close>
  have r1: \<open>request demo_host New 0 ''http://example.com'' False DNil (RNil \<noteq> RNil) demo_world = (Inr [], ?w)\<close>
    by (simp add: request_eval demo_host_def demo_world_def New_def)
  have r2: \<open>request demo_host New 0 ''http://example.com'' False DNil True demo_world = (Inr ''{"ok":true}'', ?w)\<close>
    by (simp add: request_eval demo_host_def demo_world_def New_def)
  note t = decode_skipped_or_verbatim[of demo_host New 0 "''http://example.com''" RNil demo_world "[]" ?w]
  note u = decode_skipped_or_verbatim[of demo_host New 0 "''http://example.com''" _ demo_world \<open>''{"ok":true}''\<close> ?w _ 5]
  show ?thesis using r1 r2 t u by simp
qed

section \<open>The path of a request\<close>

lemma dispatched_append: "dispatched (xs @ ys) = dispatched xs @ dispatched ys"
  by (induction xs rule: dispatched.induct) auto

lemma dispatched_log_events: "dispatched (log_events c cmd) = []"
  by (simp add: log_events_def)

lemma write_log_ok:
  assumes "logFile c \<noteq> [] \<Longrightarrow> ioutil_WriteFile h (logFile c) cmd = None"
  shows "log c \<or> logFile c \<noteq> [] \<Longrightarrow> write_log h c cmd w = (None, w\<lparr>trace := trace w @ log_events c cmd\<rparr>)"
    and "\<not> (log c \<or> logFile c \<noteq> []) \<Longrightarrow> w\<lparr>trace := trace w @ log_events c cmd\<rparr> = w"
  using assms by (auto simp: write_log_def log_events_def)

lemma write_log_fail:
  assumes "logFile c \<noteq> []" and "ioutil_WriteFile h (logFile c) cmd = Some e"
  shows "write_log h c cmd w = (Some (ErrorfW ''log err: '' e), w\<lparr>trace := trace w @ [EvWriteFile (logFile c) cmd]\<rparr>)"
  using assms by (simp add: write_log_def)

lemma request_to_log:
  assumes "buildErr c = None"
    and "prepare_body h c post data = Inr (b, lb, ls, gz)"
    and "NewRequest_err h ctx (method_name post) url = None"
  shows "request h c ctx url post data needData w =
     (let cmd = curl_command h (method_name post) (assembled_header h c post) lb ls url;
          rq = \<lparr>req_ctx = ctx, Method = method_name post, URL = url,
                req_Header = (if gz then Header_Set h (assembled_header h c post) ''Content-Encoding'' ''gzip''
                              else assembled_header h c post),
                Body = b\<rparr>
      in case (if log c \<or> logFile c \<noteq> [] then write_log h c cmd w else (None, w)) of
           (Some e, w1) \<Rightarrow> (Inl e, w1)
         | (None, w1) \<Rightarrow> dispatch h (fst (resolve_client c w1)) rq needData (snd (resolve_client c w1)))"
  using assms
  by (simp add: request_def NewRequestWithContext_def method_name_def assembled_header_def Let_def
      split: prod.splits option.splits)

lemma request_dispatch:
  assumes "buildErr c = None"
    and "prepare_body h c post data = Inr (b, lb, ls, gz)"
    and "NewRequest_err h ctx (method_name post) url = None"
    and "logFile c \<noteq> [] \<Longrightarrow>
           ioutil_WriteFile h (logFile c)
             (curl_command h (method_name post) (assembled_header h c post) lb ls url) = None"
  shows "request h c ctx url post data needData w =
     dispatch h
       (fst (resolve_client c (w\<lparr>trace := trace w @ log_events c
               (curl_command h (method_name post) (assembled_header h c post) lb ls url)\<rparr>)))
       \<lparr>req_ctx = ctx, Method = method_name post, URL = url,
         req_Header = (if gz then Header_Set h (assembled_header h c post) ''Content-Encoding'' ''gzip''
                       else assembled_header h c post),
         Body = b\<rparr>
       needData
       (snd (resolve_client c (w\<lparr>trace := trace w @ log_events c
               (curl_command h (method_name post) (assembled_header h c post) lb ls url)\<rparr>)))"
proof (cases "log c \<or> logFile c \<noteq> []")
  case True
  then show ?thesis
    using write_log_ok(1)[OF assms(4) True, of w]
    by (simp add: request_to_log[OF assms(1-3)] Let_def)
next
  case False
  then show ?thesis
    using write_log_ok(2)[OF assms(4) False, of w]
    by (simp add: request_to_log[OF assms(1-3)] Let_def)
qed

lemma dispatch_trace: "trace (snd (dispatch h cl rq nd w)) = trace w @ [EvDo cl rq]"
  by (simp add: dispatch_def Let_def split: sum.splits)

lemma dispatch_clients: "clients (snd (dispatch h cl rq nd w)) = clients w"
  by (simp add: dispatch_def Let_def split: sum.splits)


lemma Join_append:
  "xs \<noteq> [] \<Longrightarrow> ys \<noteq> [] \<Longrightarrow> Join (xs @ ys) sep = Join xs sep @ sep @ Join ys sep"
proof (induction xs sep rule: Join.induct)
  case (1 sep)
  then show ?case by simp
next
  case (2 a sep)
  then show ?case by (cases ys) simp_all
next
  case (3 a b rest sep)
  then show ?case by simp
qed

lemma curl_command_bytes:
  assumes "lb \<noteq> []"
  shows "\<exists>pre. curl_command h m hdr lb ls url
           = pre @ '' --data-binary '' @ quoteSh h lb @ '' '' @ quoteSh h url"
proof -
  let ?front = "[''curl'', ''-v'', ''-X'', m] @ concat (map (\<lambda>(k, v).
                   concat (map (\<lambda>e. [''-H'', [CHR 0x22] @ k @ '': '' @ e @ [CHR 0x22]]) v)) hdr)"
  have "curl_command h m hdr lb ls url = Join (?front @ [''--data-binary'', quoteSh h lb, quoteSh h url]) '' ''"
    using assms by (simp add: curl_command_def Let_def)
  also have "\<dots> = Join ?front '' '' @ '' '' @ Join [''--data-binary'', quoteSh h lb, quoteSh h url] '' ''"
    by (rule Join_append) simp_all
  finally show ?thesis by simp
qed

lemma curl_command_string:
  "curl_command h m hdr [] ls url = curl_command h m hdr ls [] url"
  by (simp add: curl_command_def Let_def)

lemma switch_data_log:
  "switch_data h data = Inr (Some d, lb, ls) \<Longrightarrow> (lb = d \<and> ls = []) \<or> (lb = [] \<and> ls = d)"
  by (cases data) (auto split: sum.splits)

lemma curl_command_payload:
  assumes "switch_data h data = Inr (Some d, lb, ls)" and "d \<noteq> []"
  shows "\<exists>pre. curl_command h m hdr lb ls url
           = pre @ '' --data-binary '' @ quoteSh h d @ '' '' @ quoteSh h url"
  using switch_data_log[OF assms(1)] assms(2) curl_command_bytes[of d h m hdr "[]" url]
  by (auto simp: curl_command_string)

lemmas host_eval = demo_host_def demo_world_def New_def LogFile_def Log_def Compressed_def
  DisableRedirect_def WithClient_def Header_def method_name_def

lemma prepare_body_cong:
  "enableCompress c = enableCompress c' \<Longrightarrow> prepare_body h c post data = prepare_body h c' post data"
  by (simp add: prepare_body_def split: sum.splits prod.splits option.splits)

lemma resolve_client_retrace:
  "resolve_client c (w\<lparr>trace := t\<rparr>)
   = (fst (resolve_client c w), (snd (resolve_client c w))\<lparr>trace := t\<rparr>)"
  by (simp add: resolve_client_def alloc_client_def Let_def split: option.splits)

lemma dispatch_retrace:
  "fst (dispatch h cl rq nd (w\<lparr>trace := t\<rparr>)) = fst (dispatch h cl rq nd w)"
  by (simp add: dispatch_def Let_def split: sum.splits)

lemma request_log_independent:
  "fst (request h (c\<lparr>log := True\<rparr>) ctx url post data needData w)
   = fst (request h (c\<lparr>log := False\<rparr>) ctx url post data needData w)"
proof (cases "buildErr c")
  case (Some e)
  then show ?thesis by (simp add: request_buildErr)
next
  case None
  note pc = prepare_body_cong[of "c\<lparr>log := True\<rparr>" c h post data, simplified]
    prepare_body_cong[of "c\<lparr>log := False\<rparr>" c h post data, simplified]
  show ?thesis
  proof (cases "prepare_body h c post data")
    case (Inl e)
    then show ?thesis using None by (simp add: request_def pc)
  next
    case (Inr pb)
    obtain b lb ls gz where pb: "pb = (b, lb, ls, gz)" by (cases pb) auto
    show ?thesis
    proof (cases "NewRequest_err h ctx (method_name post) url")
      case (Some e)
      then show ?thesis
        using None Inr by (simp add: request_def pc NewRequestWithContext_def method_name_def pb)
    next
      case nr: None
      have bt: "buildErr (c\<lparr>log := True\<rparr>) = None" and bf: "buildErr (c\<lparr>log := False\<rparr>) = None"
        using None by simp_all
      have pt: "prepare_body h (c\<lparr>log := True\<rparr>) post data = Inr (b, lb, ls, gz)"
        and pf: "prepare_body h (c\<lparr>log := False\<rparr>) post data = Inr (b, lb, ls, gz)"
        using Inr by (simp_all add: pc pb)
      note t = request_to_log[OF bt pt nr, of needData w]
      note f = request_to_log[OF bf pf nr, of needData w]
      have ah: "assembled_header h (c\<lparr>log := True\<rparr>) post = assembled_header h c post"
        "assembled_header h (c\<lparr>log := False\<rparr>) post = assembled_header h c post"
        by (simp_all add: assembled_header_def)
      have rc: "\<And>v. resolve_client (c\<lparr>log := True\<rparr>) v = resolve_client c v"
        "\<And>v. resolve_client (c\<lparr>log := False\<rparr>) v = resolve_client c v"
        by (simp_all add: resolve_client_def)
      show ?thesis
        unfolding t f
        by (simp add: Let_def ah rc write_log_def resolve_client_retrace dispatch_retrace
            split: option.splits)
    qed
  qed
qed


section \<open>Status classification\<close>

text \<open>
  C2. When the request has been built and logged and the client returns a response:
  if the status code is 300 or more, \<open>request\<close> returns the error whose message is
  \<open>response err:\<close> followed by the status code in decimal, the status text and the
  captured body, where the captured body is the body read from the response if
  \<open>needData\<close> is set (the read having succeeded) and empty otherwise; if the status
  code is below 300, \<open>request\<close> returns the captured body and no error.
\<close>

theorem status_classification:
  assumes "buildErr c = None"
    and "prepare_body h c post data = Inr pb"
    and "NewRequest_err h ctx (method_name post) url = None"
    and "\<And>s. logFile c \<noteq> [] \<Longrightarrow> ioutil_WriteFile h (logFile c) s = None"
    and "\<And>cl rq. client_Do h cl rq = Inr resp"
    and "needData \<Longrightarrow> resp_Body resp = Inr body"
  shows "(StatusCode resp \<ge> 300 \<longrightarrow>
            fst (request h c ctx url post data needData w) =
              Inl (Errorf (''response err: '' @ Itoa (StatusCode resp) @ '' '' @ Status resp @ '' ''
                           @ (if needData then body else []))))
       \<and> (StatusCode resp < 300 \<longrightarrow>
            fst (request h c ctx url post data needData w) = Inr (if needData then body else []))"
proof -
  obtain b lb ls gz where pb: "pb = (b, lb, ls, gz)" by (cases pb) auto
  note eq = request_dispatch[OF assms(1) assms(2)[unfolded pb] assms(3) assms(4), of needData w]
  show ?thesis
    using assms(6) by (auto simp: eq dispatch_def assms(5) Let_def)
qed


theorem status_classification_witness:
  "buildErr (LogFile ''/tmp/req.log'' New) = None
   \<and> prepare_body not_found_host (LogFile ''/tmp/req.log'' New) False DNil = Inr (None, [], [], False)
   \<and> NewRequest_err not_found_host 0 (method_name False) ''http://example.com/x'' = None
   \<and> (\<forall>s. ioutil_WriteFile not_found_host (logFile (LogFile ''/tmp/req.log'' New)) s = None)
   \<and> fst (request not_found_host (LogFile ''/tmp/req.log'' New) 0 ''http://example.com/x'' False DNil True demo_world)
       = Inl (Errorf ''response err: 404 404 Not Found not found'')
   \<and> fst (request not_found_host (LogFile ''/tmp/req.log'' New) 0 ''http://example.com/x'' False DNil False demo_world)
       = Inl (Errorf ''response err: 404 404 Not Found '')
   \<and> fst (request demo_host New 0 ''http://example.com/x'' True (DString ''hi'') True demo_world)
       = Inr (''{'' @ [CHR 0x22] @ ''ok'' @ [CHR 0x22] @ '':true}'')"
proof -
  let ?c = "LogFile ''/tmp/req.log'' New"
  let ?resp = "\<lparr>StatusCode = 404, Status = ''404 Not Found'', resp_Body = Inr ''not found''\<rparr>"
  have h1: "buildErr ?c = None" by (simp add: host_eval)
  have h2: "prepare_body not_found_host ?c False DNil = Inr (None, [], [], False)"
    by (simp add: prepare_body_def)
  have h3: "NewRequest_err not_found_host 0 (method_name False) ''http://example.com/x'' = None"
    by (simp add: not_found_host_def host_eval)
  have h4: "\<And>s. logFile ?c \<noteq> [] \<Longrightarrow> ioutil_WriteFile not_found_host (logFile ?c) s = None"
    by (simp add: not_found_host_def host_eval)
  have h5: "\<And>cl rq. client_Do not_found_host cl rq = Inr ?resp"
    by (simp add: not_found_host_def host_eval)
  have h6: "True \<Longrightarrow> resp_Body ?resp = Inr ''not found''" by simp
  have h7: "False \<Longrightarrow> resp_Body ?resp = Inr ''not found''" by simp
  let ?ok = "\<lparr>StatusCode = 200, Status = ''200 OK'',
              resp_Body = Inr (''{'' @ [CHR 0x22] @ ''ok'' @ [CHR 0x22] @ '':true}'')\<rparr>"
  have g1: "buildErr New = None" by (simp add: host_eval)
  have g2: "prepare_body demo_host New True (DString ''hi'') = Inr (Some ''hi'', [], ''hi'', False)"
    by (simp add: prepare_body_def host_eval)
  have g3: "NewRequest_err demo_host 0 (method_name True) ''http://example.com/x'' = None"
    by (simp add: host_eval)
  have g4: "\<And>s. logFile New \<noteq> [] \<Longrightarrow> ioutil_WriteFile demo_host (logFile New) s = None"
    by (simp add: host_eval)
  have g5: "\<And>cl rq. client_Do demo_host cl rq = Inr ?ok"
    by (simp add: host_eval)
  have g6: "True \<Longrightarrow> resp_Body ?ok = Inr (''{'' @ [CHR 0x22] @ ''ok'' @ [CHR 0x22] @ '':true}'')"
    by simp
  show ?thesis
    using h1 h2 h3 h4
      status_classification[OF h1 h2 h3 h4 h5 h6, where w = demo_world]
      status_classification[OF h1 h2 h3 h4 h5 h7, where w = demo_world]
      status_classification[OF g1 g2 g3 g4 g5 g6, where w = demo_world]
    by (simp add: Itoa_def LogFile_def)
qed

section \<open>Logging\<close>

text \<open>
  C6. Console logging never changes what \<open>request\<close> returns: with \<open>log\<close> set
  and with \<open>log\<close> cleared the result is the same. When a log file is configured
  and writing the command line to it fails with \<open>e\<close>, \<open>request\<close> returns the
  error \<open>log err:\<close> wrapping \<open>e\<close>; the trace gains the attempted write and
  nothing else, so no request is handed to a client.
\<close>

theorem log_file_failure_is_terminal:
  "fst (request h (c\<lparr>log := True\<rparr>) ctx url post data needData w)
     = fst (request h (c\<lparr>log := False\<rparr>) ctx url post data needData w)
 \<and> (buildErr c = None \<longrightarrow> prepare_body h c post data = Inr (b, lb, ls, gz) \<longrightarrow>
      NewRequest_err h ctx (method_name post) url = None \<longrightarrow> logFile c \<noteq> [] \<longrightarrow>
      ioutil_WriteFile h (logFile c)
        (curl_command h (method_name post) (assembled_header h c post) lb ls url) = Some e \<longrightarrow>
      request h c ctx url post data needData w =
        (Inl (ErrorfW ''log err: '' e),
         w\<lparr>trace := trace w @ [EvWriteFile (logFile c)
              (curl_command h (method_name post) (assembled_header h c post) lb ls url)]\<rparr>)
      \<and> dispatched (trace (snd (request h c ctx url post data needData w))) = dispatched (trace w))"
proof (intro conjI impI)
  show "fst (request h (c\<lparr>log := True\<rparr>) ctx url post data needData w)
     = fst (request h (c\<lparr>log := False\<rparr>) ctx url post data needData w)"
    by (rule request_log_independent)
next
  assume a: "buildErr c = None" "prepare_body h c post data = Inr (b, lb, ls, gz)"
    "NewRequest_err h ctx (method_name post) url = None" "logFile c \<noteq> []"
    "ioutil_WriteFile h (logFile c)
        (curl_command h (method_name post) (assembled_header h c post) lb ls url) = Some e"
  show r: "request h c ctx url post data needData w =
        (Inl (ErrorfW ''log err: '' e),
         w\<lparr>trace := trace w @ [EvWriteFile (logFile c)
              (curl_command h (method_name post) (assembled_header h c post) lb ls url)]\<rparr>)"
    using a(4) by (simp add: request_to_log[OF a(1-3)] Let_def write_log_fail[OF a(4,5)])
  show "dispatched (trace (snd (request h c ctx url post data needData w))) = dispatched (trace w)"
    by (simp add: r dispatched_append)
qed

theorem log_file_failure_is_terminal_witness:
  "buildErr (LogFile ''/var/log/req.log'' New) = None
   \<and> prepare_body disk_full_host (LogFile ''/var/log/req.log'' New) True (DString ''hi'') = Inr (Some ''hi'', [], ''hi'', False)
   \<and> NewRequest_err disk_full_host 0 (method_name True) ''http://example.com/x'' = None
   \<and> logFile (LogFile ''/var/log/req.log'' New) \<noteq> []
   \<and> (\<forall>s. ioutil_WriteFile disk_full_host ''/var/log/req.log'' s = Some (LibErr ''no space left on device''))
   \<and> fst (request disk_full_host (LogFile ''/var/log/req.log'' New) 0 ''http://example.com/x'' True (DString ''hi'') True demo_world)
       = Inl (ErrorfW ''log err: '' (LibErr ''no space left on device''))
   \<and> dispatched (trace (snd (request disk_full_host (LogFile ''/var/log/req.log'' New) 0 ''http://example.com/x'' True (DString ''hi'') True demo_world))) = []
   \<and> fst (request demo_host (New\<lparr>log := True\<rparr>) 0 ''http://example.com/x'' True (DString ''hi'') True demo_world)
       = fst (request demo_host (New\<lparr>log := False\<rparr>) 0 ''http://example.com/x'' True (DString ''hi'') True demo_world)"
proof -
  let ?c = "LogFile ''/var/log/req.log'' New"
  have h1: "buildErr ?c = None" by (simp add: host_eval)
  have h2: "prepare_body disk_full_host ?c True (DString ''hi'') = Inr (Some ''hi'', [], ''hi'', False)"
    by (simp add: prepare_body_def host_eval)
  have h3: "NewRequest_err disk_full_host 0 (method_name True) ''http://example.com/x'' = None"
    by (simp add: disk_full_host_def host_eval)
  have h4: "logFile ?c \<noteq> []" by (simp add: host_eval)
  have h5: "\<And>s. ioutil_WriteFile disk_full_host (logFile ?c) s = Some (LibErr ''no space left on device'')"
    by (simp add: disk_full_host_def host_eval)
  note t = log_file_failure_is_terminal[where h = disk_full_host and c = ?c and post = True
      and data = "DString ''hi''" and ctx = 0 and url = "''http://example.com/x''" and w = demo_world
      and needData = True and b = "Some ''hi''" and lb = "[]" and ls = "''hi''" and gz = False
      and e = "LibErr ''no space left on device''"]
  note u = log_file_failure_is_terminal[where h = demo_host and c = New and post = True
      and data = "DString ''hi''" and ctx = 0 and url = "''http://example.com/x''" and w = demo_world
      and needData = True, THEN conjunct1]
  show ?thesis
    using h1 h2 h3 h4 h5 t u by (simp add: demo_world_def LogFile_def)
qed

section \<open>The body of the request\<close>

lemma request_data_cong:
  assumes "prepare_body h c post data = prepare_body h c post data'"
  shows "request h c ctx url post data nd w = request h c ctx url post data' nd w"
  by (simp only: request_def assms)

lemma request_log_data_cong:
  assumes "prepare_body h c post data = Inr (b, lb, ls, gz)"
    and "prepare_body h c post data' = Inr (b, lb', ls', gz)"
    and "\<And>m hdr. curl_command h m hdr lb ls url = curl_command h m hdr lb' ls' url"
  shows "request h c ctx url post data nd w = request h c ctx url post data' nd w"
  using assms by (cases post) (simp_all add: request_def Let_def split: option.splits sum.splits)

lemma request_string_as_bytes:
  "request h c ctx url True (DString d) nd w = request h c ctx url True (DBytes d) nd w"
proof (cases "prepare_body h c True (DBytes d)")
  case (Inl e)
  then have "prepare_body h c True (DString d) = prepare_body h c True (DBytes d)"
    by (auto simp: prepare_body_def split: if_splits sum.splits)
  then show ?thesis by (rule request_data_cong)
next
  case (Inr pb)
  then obtain b gz where b: "prepare_body h c True (DBytes d) = Inr (b, d, [], gz)"
    by (auto simp: prepare_body_def split: if_splits sum.splits)
  then have s: "prepare_body h c True (DString d) = Inr (b, [], d, gz)"
    by (auto simp: prepare_body_def split: if_splits sum.splits)
  show ?thesis
    by (rule request_log_data_cong[OF s b]) (rule curl_command_string)
qed

lemma dispatched_request:
  assumes "buildErr c = None"
    and "prepare_body h c post data = Inr (b, lb, ls, gz)"
    and "NewRequest_err h ctx (method_name post) url = None"
    and "\<And>s. logFile c \<noteq> [] \<Longrightarrow> ioutil_WriteFile h (logFile c) s = None"
  shows "trace (snd (request h c ctx url post data needData w)) =
     trace w @ log_events c (curl_command h (method_name post) (assembled_header h c post) lb ls url)
     @ [EvDo (fst (resolve_client c w))
          \<lparr>req_ctx = ctx, Method = method_name post, URL = url,
            req_Header = (if gz then Header_Set h (assembled_header h c post) ''Content-Encoding'' ''gzip''
                          else assembled_header h c post),
            Body = b\<rparr>]"
  by (simp add: request_dispatch[OF assms(1-3) assms(4)] dispatch_trace resolve_client_retrace)

lemma resolve_client_fst_retrace: "fst (resolve_client c (w\<lparr>trace := t\<rparr>)) = fst (resolve_client c w)"
  by (simp add: resolve_client_retrace)

lemma request_builder_cong:
  assumes "buildErr c = buildErr c'" and "header c = header c'" and "log c = log c'"
    and "logFile c = logFile c'" and "client c = client c'"
    and "disableRedirect c = disableRedirect c'"
    and "prepare_body h c post data = prepare_body h c' post data"
  shows "request h c ctx url post data nd w = request h c' ctx url post data nd w"
proof -
  have wl: "write_log h c = write_log h c'"
    by (intro ext) (simp add: write_log_def assms)
  have rc: "resolve_client c = resolve_client c'"
    by (intro ext) (simp add: resolve_client_def assms)
  show ?thesis
    unfolding request_def by (simp only: assms wl rc)
qed

text \<open>
  C3. On a builder without a stored error, a POST with a \<open>json.RawMessage\<close>, a string
  or any other value that \<open>json.Marshal\<close> turns into \<open>d\<close> does exactly what a POST
  with the byte slice \<open>d\<close> does; a POST with the byte slice \<open>d\<close> hands the client a
  request whose body is \<open>d\<close> itself (or the gzip of \<open>d\<close> when compression is
  enabled, see C4). If \<open>json.Marshal\<close> fails, \<open>request\<close> returns its error and leaves
  the world as it was: nothing is logged and nothing is sent. A GET does what a GET with
  nil data does, and the request it hands to the client has no body.
\<close>

theorem payload_encoding:
  assumes "buildErr c = None"
  shows "request h c ctx url True (DRawMessage d) nd w = request h c ctx url True (DBytes d) nd w
       \<and> request h c ctx url True (DString d) nd w = request h c ctx url True (DBytes d) nd w
       \<and> (json_Marshal h v = Inr d \<longrightarrow>
            request h c ctx url True (DOther v) nd w = request h c ctx url True (DBytes d) nd w)
       \<and> (json_Marshal h v = Inl e \<longrightarrow> request h c ctx url True (DOther v) nd w = (Inl e, w))
       \<and> (NewRequest_err h ctx ''POST'' url = None \<longrightarrow>
            (\<forall>s. logFile c \<noteq> [] \<longrightarrow> ioutil_WriteFile h (logFile c) s = None) \<longrightarrow>
            (enableCompress c \<longrightarrow> gzipData h d = Inr z) \<longrightarrow>
            map (\<lambda>p. Body (snd p)) (dispatched (trace (snd (request h c ctx url True (DBytes d) nd w))))
              = map (\<lambda>p. Body (snd p)) (dispatched (trace w)) @ [Some (if enableCompress c then z else d)])
       \<and> request h c ctx url False data nd w = request h c ctx url False DNil nd w
       \<and> (NewRequest_err h ctx ''GET'' url = None \<longrightarrow>
            (\<forall>s. logFile c \<noteq> [] \<longrightarrow> ioutil_WriteFile h (logFile c) s = None) \<longrightarrow>
            map (\<lambda>p. Body (snd p)) (dispatched (trace (snd (request h c ctx url False data nd w))))
              = map (\<lambda>p. Body (snd p)) (dispatched (trace w)) @ [None])"
proof (intro conjI impI)
  show "request h c ctx url True (DRawMessage d) nd w = request h c ctx url True (DBytes d) nd w"
    by (rule request_data_cong) (simp add: prepare_body_def)
  show "request h c ctx url True (DString d) nd w = request h c ctx url True (DBytes d) nd w"
    by (rule request_string_as_bytes)
  show "request h c ctx url True (DOther v) nd w = request h c ctx url True (DBytes d) nd w"
    if "json_Marshal h v = Inr d"
    by (rule request_data_cong) (simp add: prepare_body_def that)
  show "request h c ctx url True (DOther v) nd w = (Inl e, w)" if "json_Marshal h v = Inl e"
    using assms that by (simp add: request_def prepare_body_def)
  show "request h c ctx url False data nd w = request h c ctx url False DNil nd w"
    by (rule request_data_cong) (simp add: prepare_body_def)
next
  assume nr: "NewRequest_err h ctx ''POST'' url = None"
    and wr: "\<forall>s. logFile c \<noteq> [] \<longrightarrow> ioutil_WriteFile h (logFile c) s = None"
    and gz: "enableCompress c \<longrightarrow> gzipData h d = Inr z"
  have pb: "prepare_body h c True (DBytes d)
            = Inr (Some (if enableCompress c then z else d), d, [], enableCompress c)"
    using gz by (simp add: prepare_body_def)
  have nr': "NewRequest_err h ctx (method_name True) url = None"
    using nr by (simp add: method_name_def)
  show "map (\<lambda>p. Body (snd p)) (dispatched (trace (snd (request h c ctx url True (DBytes d) nd w))))
              = map (\<lambda>p. Body (snd p)) (dispatched (trace w)) @ [Some (if enableCompress c then z else d)]"
    using wr by (simp add: dispatched_request[OF assms pb nr'] dispatched_append dispatched_log_events)
next
  assume nr: "NewRequest_err h ctx ''GET'' url = None"
    and wr: "\<forall>s. logFile c \<noteq> [] \<longrightarrow> ioutil_WriteFile h (logFile c) s = None"
  have pb: "prepare_body h c False data = Inr (None, [], [], False)"
    by (simp add: prepare_body_def)
  have nr': "NewRequest_err h ctx (method_name False) url = None"
    using nr by (simp add: method_name_def)
  show "map (\<lambda>p. Body (snd p)) (dispatched (trace (snd (request h c ctx url False data nd w))))
              = map (\<lambda>p. Body (snd p)) (dispatched (trace w)) @ [None]"
    using wr by (simp add: dispatched_request[OF assms pb nr'] dispatched_append dispatched_log_events)
qed


theorem payload_encoding_witness:
  \<open>buildErr (LogFile ''/tmp/req.log'' New) = None
   \<and> json_Marshal demo_host 0 = Inl (LibErr ''json: unsupported type'')
   \<and> request demo_host (LogFile ''/tmp/req.log'' New) 0 ''http://example.com/x'' True (DOther 0) True demo_world
       = (Inl (LibErr ''json: unsupported type''), demo_world)
   \<and> json_Marshal demo_host 1 = Inr ''{"a":1}''
   \<and> NewRequest_err demo_host 0 ''POST'' ''http://example.com/x'' = None
   \<and> NewRequest_err demo_host 0 ''GET'' ''http://example.com/x'' = None
   \<and> (\<forall>s. ioutil_WriteFile demo_host ''/tmp/req.log'' s = None)
   \<and> \<not> enableCompress (LogFile ''/tmp/req.log'' New)
   \<and> map (\<lambda>p. Body (snd p)) (dispatched (trace (snd
         (request demo_host (LogFile ''/tmp/req.log'' New) 0 ''http://example.com/x'' True (DOther 1) True demo_world))))
       = [Some ''{"a":1}'']
   \<and> map (\<lambda>p. Body (snd p)) (dispatched (trace (snd
         (request demo_host (LogFile ''/tmp/req.log'' New) 0 ''http://example.com/x'' True (DString ''hi'') True demo_world))))
       = [Some ''hi'']
   \<and> map (\<lambda>p. Body (snd p)) (dispatched (trace (snd
         (request demo_host (LogFile ''/tmp/req.log'' New) 0 ''http://example.com/x'' False (DString ''hi'') True demo_world))))
       = [None]\<close>
proof -
  let ?c = "LogFile ''/tmp/req.log'' New"
  have h1: "buildErr ?c = None" by (simp add: host_eval)
  have m0: "json_Marshal demo_host 0 = Inl (LibErr ''json: unsupported type'')"
    by (simp add: demo_host_def)
  have m1: \<open>json_Marshal demo_host 1 = Inr ''{"a":1}''\<close>
    by (simp add: demo_host_def)
  have n1: "NewRequest_err demo_host 0 ''POST'' ''http://example.com/x'' = None"
    and n2: "NewRequest_err demo_host 0 ''GET'' ''http://example.com/x'' = None"
    by (simp_all add: demo_host_def)
  have wr: "\<forall>s. ioutil_WriteFile demo_host ''/tmp/req.log'' s = None"
    by (simp add: demo_host_def)
  have nc: "\<not> enableCompress ?c" by (simp add: host_eval)
  have lf: "logFile ?c = ''/tmp/req.log''" by (simp add: host_eval)
  have tr: "dispatched (trace demo_world) = []" by (simp add: demo_world_def)
  note a = payload_encoding[OF h1, where h = demo_host and ctx = 0 and url = "''http://example.com/x''"
      and nd = True and w = demo_world and v = 0 and e = "LibErr ''json: unsupported type''"]
  note b = payload_encoding[OF h1, where h = demo_host and ctx = 0 and url = "''http://example.com/x''"
      and nd = True and w = demo_world and v = 1 and d = \<open>''{"a":1}''\<close>]
  note c = payload_encoding[OF h1, where h = demo_host and ctx = 0 and url = "''http://example.com/x''"
      and nd = True and w = demo_world and d = "''hi''" and data = "DString ''hi''"]
  show ?thesis
    using h1 m0 m1 n1 n2 wr nc a b c by (simp add: lf tr)
qed

text \<open>
  C4. With compression enabled, for a POST whose payload serializes to \<open>d\<close>: the
  request handed to the client has as body the whole output of \<open>gzipData\<close> on \<open>d\<close>,
  and as header the assembled header with \<open>Content-Encoding: gzip\<close> set; the same
  builder with compression disabled sends \<open>d\<close> and the assembled header, and logs the
  very same command line, in which the data argument is the quoted \<open>d\<close>. On a GET, and
  on a POST with nil data, nothing is compressed: \<open>request\<close> does what it does with
  compression disabled, and the header of the request is the assembled header.
\<close>

theorem compression:
  assumes "buildErr c = None" and "enableCompress c"
    and "switch_data h data = Inr (Some d, lb, ls)"
    and "gzipData h d = Inr z"
    and "NewRequest_err h ctx ''POST'' url = None"
    and "\<And>s. logFile c \<noteq> [] \<Longrightarrow> ioutil_WriteFile h (logFile c) s = None"
  shows "trace (snd (request h c ctx url True data nd w)) =
           trace w @ log_events c (curl_command h ''POST'' (assembled_header h c True) lb ls url)
           @ [EvDo (fst (resolve_client c w))
                \<lparr>req_ctx = ctx, Method = ''POST'', URL = url,
                  req_Header = Header_Set h (assembled_header h c True) ''Content-Encoding'' ''gzip'',
                  Body = Some z\<rparr>]
       \<and> trace (snd (request h (c\<lparr>enableCompress := False\<rparr>) ctx url True data nd w)) =
           trace w @ log_events c (curl_command h ''POST'' (assembled_header h c True) lb ls url)
           @ [EvDo (fst (resolve_client c w))
                \<lparr>req_ctx = ctx, Method = ''POST'', URL = url,
                  req_Header = assembled_header h c True,
                  Body = Some d\<rparr>]
       \<and> (d \<noteq> [] \<longrightarrow>
            (\<exists>pre. curl_command h ''POST'' (assembled_header h c True) lb ls url
                     = pre @ '' --data-binary '' @ quoteSh h d @ '' '' @ quoteSh h url))
       \<and> request h c ctx url False data nd w = request h (c\<lparr>enableCompress := False\<rparr>) ctx url False data nd w
       \<and> request h c ctx url True DNil nd w = request h (c\<lparr>enableCompress := False\<rparr>) ctx url True DNil nd w
       \<and> trace (snd (request h c ctx url True DNil nd w)) =
           trace w @ log_events c (curl_command h ''POST'' (assembled_header h c True) [] [] url)
           @ [EvDo (fst (resolve_client c w))
                \<lparr>req_ctx = ctx, Method = ''POST'', URL = url,
                  req_Header = assembled_header h c True, Body = None\<rparr>]
       \<and> (NewRequest_err h ctx ''GET'' url = None \<longrightarrow>
            trace (snd (request h c ctx url False data nd w)) =
              trace w @ log_events c (curl_command h ''GET'' (assembled_header h c False) [] [] url)
              @ [EvDo (fst (resolve_client c w))
                   \<lparr>req_ctx = ctx, Method = ''GET'', URL = url,
                     req_Header = assembled_header h c False, Body = None\<rparr>])"
proof (intro conjI impI)
  let ?c' = "c\<lparr>enableCompress := False\<rparr>"
  have nr: "NewRequest_err h ctx (method_name True) url = None"
    using assms(5) by (simp add: method_name_def)
  have pb: "prepare_body h c True data = Inr (Some z, lb, ls, True)"
    using assms(2-4) by (simp add: prepare_body_def)
  have pb': "prepare_body h ?c' True data = Inr (Some d, lb, ls, False)"
    using assms(3) by (simp add: prepare_body_def)
  have be': "buildErr ?c' = None" using assms(1) by simp
  have wr': "\<And>s. logFile ?c' \<noteq> [] \<Longrightarrow> ioutil_WriteFile h (logFile ?c') s = None"
    using assms(6) by simp
  have same: "assembled_header h ?c' True = assembled_header h c True"
    "\<And>s. log_events ?c' s = log_events c s" "\<And>v. resolve_client ?c' v = resolve_client c v"
    by (simp_all add: assembled_header_def log_events_def resolve_client_def)
  show "trace (snd (request h c ctx url True data nd w)) =
           trace w @ log_events c (curl_command h ''POST'' (assembled_header h c True) lb ls url)
           @ [EvDo (fst (resolve_client c w))
                \<lparr>req_ctx = ctx, Method = ''POST'', URL = url,
                  req_Header = Header_Set h (assembled_header h c True) ''Content-Encoding'' ''gzip'',
                  Body = Some z\<rparr>]"
    using dispatched_request[OF assms(1) pb nr assms(6), of nd w] by (simp add: method_name_def)
  show "trace (snd (request h ?c' ctx url True data nd w)) =
           trace w @ log_events c (curl_command h ''POST'' (assembled_header h c True) lb ls url)
           @ [EvDo (fst (resolve_client c w))
                \<lparr>req_ctx = ctx, Method = ''POST'', URL = url,
                  req_Header = assembled_header h c True,
                  Body = Some d\<rparr>]"
    using dispatched_request[OF be' pb' nr wr', of nd w] by (simp add: method_name_def same)
  show "\<exists>pre. curl_command h ''POST'' (assembled_header h c True) lb ls url
                     = pre @ '' --data-binary '' @ quoteSh h d @ '' '' @ quoteSh h url"
    if "d \<noteq> []"
    by (rule curl_command_payload[OF assms(3) that])
  have eq: "request h c ctx url post data' nd w = request h ?c' ctx url post data' nd w"
    if "prepare_body h c post data' = prepare_body h ?c' post data'" for post data'
    by (rule request_builder_cong) (simp_all add: that)
  show "request h c ctx url False data nd w = request h ?c' ctx url False data nd w"
    by (rule eq) (simp add: prepare_body_def)
  show "request h c ctx url True DNil nd w = request h ?c' ctx url True DNil nd w"
    by (rule eq) (simp add: prepare_body_def)
  have pn: "prepare_body h c True DNil = Inr (None, [], [], False)"
    by (simp add: prepare_body_def)
  show "trace (snd (request h c ctx url True DNil nd w)) =
           trace w @ log_events c (curl_command h ''POST'' (assembled_header h c True) [] [] url)
           @ [EvDo (fst (resolve_client c w))
                \<lparr>req_ctx = ctx, Method = ''POST'', URL = url,
                  req_Header = assembled_header h c True, Body = None\<rparr>]"
    using dispatched_request[OF assms(1) pn nr assms(6), of nd w] by (simp add: method_name_def)
  have pg: "prepare_body h c False data = Inr (None, [], [], False)"
    by (simp add: prepare_body_def)
  show "trace (snd (request h c ctx url False data nd w)) =
              trace w @ log_events c (curl_command h ''GET'' (assembled_header h c False) [] [] url)
              @ [EvDo (fst (resolve_client c w))
                   \<lparr>req_ctx = ctx, Method = ''GET'', URL = url,
                     req_Header = assembled_header h c False, Body = None\<rparr>]"
    if "NewRequest_err h ctx ''GET'' url = None"
  proof -
    have ng: "NewRequest_err h ctx (method_name False) url = None"
      using that by (simp add: method_name_def)
    show ?thesis
      using dispatched_request[OF assms(1) pg ng assms(6), of nd w] by (simp add: method_name_def)
  qed
qed

theorem compression_witness:
  \<open>buildErr (Compressed (Log [] New)) = None \<and> enableCompress (Compressed (Log [] New))
   \<and> switch_data demo_host (DOther 1) = Inr (Some ''{"a":1}'', ''{"a":1}'', [])
   \<and> gzipData demo_host ''{"a":1}'' = Inr ''gz({"a":1})''
   \<and> NewRequest_err demo_host 0 ''POST'' ''http://example.com/x'' = None
   \<and> logFile (Compressed (Log [] New)) = []
   \<and> trace (snd (request demo_host (Compressed (Log [] New)) 0 ''http://example.com/x'' True (DOther 1) True demo_world))
       = [EvStderr (''HTTP DEBUG: curl -v -X POST -H "Content-Type: application/json" --data-binary ''
                    @ [CHR 0x27] @ ''{"a":1}'' @ [CHR 0x27] @ '' '' @ [CHR 0x27] @ ''http://example.com/x''
                    @ [CHR 0x27] @ [CHR 0x0A]),
          EvDo 0 \<lparr>req_ctx = 0, Method = ''POST'', URL = ''http://example.com/x'',
                   req_Header = [(''Content-Type'', [''application/json'']), (''Content-Encoding'', [''gzip''])],
                   Body = Some ''gz({"a":1})''\<rparr>]\<close>
proof -
  let ?c = "Compressed (Log [] New)"
  have h1: "buildErr ?c = None" and h2: "enableCompress ?c" and lf: "logFile ?c = []"
    by (simp_all add: host_eval)
  have h3: \<open>switch_data demo_host (DOther 1) = Inr (Some ''{"a":1}'', ''{"a":1}'', [])\<close>
    by (simp add: demo_host_def)
  have h4: \<open>gzipData demo_host ''{"a":1}'' = Inr ''gz({"a":1})''\<close>
    by (simp add: gzipData_def demo_host_def)
  have h5: "NewRequest_err demo_host 0 ''POST'' ''http://example.com/x'' = None"
    by (simp add: demo_host_def)
  have h6: "\<And>s. logFile ?c \<noteq> [] \<Longrightarrow> ioutil_WriteFile demo_host (logFile ?c) s = None"
    by (simp add: demo_host_def)
  note t = compression[OF h1 h2 h3 h4 h5 h6, where nd = True and w = demo_world, THEN conjunct1]
  show ?thesis
    using h1 h2 h3 h4 h5 lf t
    by (simp add: log_events_def curl_command_def assembled_header_def apply_headers_def Header_Set_def
        quoteSh_def resolve_client_def host_eval)
qed


section \<open>Redirects\<close>

lemma resolve_client_clone:
  assumes "disableRedirect c"
  shows "fst (resolve_client c w) = next_addr w"
    and "clients (snd (resolve_client c w)) =
           (clients w)(next_addr w :=
              (clients w (case client c of None \<Rightarrow> DefaultClient w | Some p \<Rightarrow> p))
                \<lparr>CheckRedirect := Some (\<lambda>req via. Some ErrRedirect)\<rparr>)"
  using assms by (simp_all add: resolve_client_def alloc_client_def Let_def)

lemma resolve_client_clients_retrace:
  "clients (snd (resolve_client c (w\<lparr>trace := t\<rparr>))) = clients (snd (resolve_client c w))"
  by (simp add: resolve_client_retrace)

text \<open>
  C5. With redirects disabled, once the request is built and logged: the client that
  receives the request is a newly allocated object, equal to the resolved client (the
  configured one, or the default) in every field but \<open>CheckRedirect\<close>, which is the
  function returning \<open>ErrRedirect\<close> on all arguments; every object that was in the
  store before the call, the resolved client among them, is unchanged. If the host's
  client, as \<open>net/http\<close> documents, answers a redirect by calling \<open>CheckRedirect\<close>
  on the next request and the requests made so far, and returns the error of the hook
  wrapped, then \<open>request\<close> returns an error that wraps \<open>ErrRedirect\<close>.
\<close>

theorem redirect_disabled:
  assumes "disableRedirect c" and "buildErr c = None"
    and "prepare_body h c post data = Inr pb"
    and "NewRequest_err h ctx (method_name post) url = None"
    and "\<And>s. logFile c \<noteq> [] \<Longrightarrow> ioutil_WriteFile h (logFile c) s = None"
  shows "map fst (dispatched (trace (snd (request h c ctx url post data nd w))))
           = map fst (dispatched (trace w)) @ [next_addr w]
       \<and> clients (snd (request h c ctx url post data nd w)) (next_addr w)
           = (clients w (case client c of None \<Rightarrow> DefaultClient w | Some p \<Rightarrow> p))
               \<lparr>CheckRedirect := Some (\<lambda>req via. Some ErrRedirect)\<rparr>
       \<and> (\<forall>a. a \<noteq> next_addr w \<longrightarrow> clients (snd (request h c ctx url post data nd w)) a = clients w a)
       \<and> ((\<forall>cl rq hk e. CheckRedirect cl = Some hk \<longrightarrow> hk (nxt rq) (via rq) = Some e \<longrightarrow>
               client_Do h cl rq = Inl (ErrorfW (pfx rq) e))
            \<longrightarrow> (\<exists>p. fst (request h c ctx url post data nd w) = Inl (ErrorfW p ErrRedirect)
                     \<and> errors_Is (ErrorfW p ErrRedirect) ErrRedirect))"
proof -
  obtain b lb ls gz where pb: "pb = (b, lb, ls, gz)" by (cases pb) auto
  note eq = request_dispatch[OF assms(2) assms(3)[unfolded pb] assms(4) assms(5), of nd w]
  note tr = dispatched_request[OF assms(2) assms(3)[unfolded pb] assms(4) assms(5), of nd w]
  note rc = resolve_client_clone[OF assms(1)]
  have cl: "clients (snd (request h c ctx url post data nd w)) =
           (clients w)(next_addr w :=
              (clients w (case client c of None \<Rightarrow> DefaultClient w | Some p \<Rightarrow> p))
                \<lparr>CheckRedirect := Some (\<lambda>req via. Some ErrRedirect)\<rparr>)"
    by (simp add: eq dispatch_clients resolve_client_clients_retrace rc(2))
  have c1: "map fst (dispatched (trace (snd (request h c ctx url post data nd w))))
           = map fst (dispatched (trace w)) @ [next_addr w]"
    by (simp add: tr dispatched_append dispatched_log_events rc(1))
  have c5: "\<exists>p. fst (request h c ctx url post data nd w) = Inl (ErrorfW p ErrRedirect)
                     \<and> errors_Is (ErrorfW p ErrRedirect) ErrRedirect"
    if hc: "\<forall>cl rq hk e. CheckRedirect cl = Some hk \<longrightarrow> hk (nxt rq) (via rq) = Some e \<longrightarrow>
               client_Do h cl rq = Inl (ErrorfW (pfx rq) e)"
  proof -
    let ?w1 = "w\<lparr>trace := trace w @ log_events c
               (curl_command h (method_name post) (assembled_header h c post) lb ls url)\<rparr>"
    let ?cl = "clients (snd (resolve_client c ?w1)) (fst (resolve_client c ?w1))"
    have "CheckRedirect ?cl = Some (\<lambda>req via. Some ErrRedirect)"
      by (simp add: resolve_client_clients_retrace resolve_client_fst_retrace rc)
    then have "\<And>rq. client_Do h ?cl rq = Inl (ErrorfW (pfx rq) ErrRedirect)"
      using hc by blast
    then show ?thesis
      by (simp add: eq dispatch_def Let_def)
  qed
  show ?thesis
    using c1 cl c5 by simp
qed

theorem redirect_disabled_witness:
  \<open>disableRedirect (DisableRedirect (WithClient (Some 1) New))
   \<and> buildErr (DisableRedirect (WithClient (Some 1) New)) = None
   \<and> prepare_body redirecting_host (DisableRedirect (WithClient (Some 1) New)) False DNil = Inr (None, [], [], False)
   \<and> NewRequest_err redirecting_host 0 (method_name False) ''http://example.com/old'' = None
   \<and> logFile (DisableRedirect (WithClient (Some 1) New)) = []
   \<and> fst (request redirecting_host (DisableRedirect (WithClient (Some 1) New)) 0 ''http://example.com/old''
            False DNil True caller_world)
       = Inl (ErrorfW ''Get "http://example.com/new": '' ErrRedirect)
   \<and> map fst (dispatched (trace (snd (request redirecting_host (DisableRedirect (WithClient (Some 1) New)) 0
            ''http://example.com/old'' False DNil True caller_world)))) = [2]
   \<and> Transport (clients (snd (request redirecting_host (DisableRedirect (WithClient (Some 1) New)) 0
            ''http://example.com/old'' False DNil True caller_world)) 2) = UserTransport 7
   \<and> clients (snd (request redirecting_host (DisableRedirect (WithClient (Some 1) New)) 0
            ''http://example.com/old'' False DNil True caller_world)) 1 = caller_client
   \<and> fst (request redirecting_host (WithClient (Some 1) New) 0 ''http://example.com/old''
            False DNil True caller_world) = Inr ''moved here''\<close>
proof -
  let ?c = "DisableRedirect (WithClient (Some 1) New)"
  let ?nxt = "\<lparr>req_ctx = 0, Method = ''GET'', URL = ''http://example.com/new'', req_Header = [], Body = None\<rparr>"
  let ?old = "\<lparr>req_ctx = 0, Method = ''GET'', URL = ''http://example.com/old'', req_Header = [], Body = None\<rparr>"
  have h1: "disableRedirect ?c" and h2: "buildErr ?c = None" and lf: "logFile ?c = []"
    by (simp_all add: host_eval)
  have h3: "prepare_body redirecting_host ?c False DNil = Inr (None, [], [], False)"
    by (simp add: prepare_body_def)
  have h4: "NewRequest_err redirecting_host 0 (method_name False) ''http://example.com/old'' = None"
    by (simp add: redirecting_host_def host_eval)
  have h5: "\<And>s. logFile ?c \<noteq> [] \<Longrightarrow> ioutil_WriteFile redirecting_host (logFile ?c) s = None"
    by (simp add: host_eval)
  have hc: \<open>\<forall>cl rq hk e. CheckRedirect cl = Some hk \<longrightarrow>
            hk (rq\<lparr>URL := ''http://example.com/new''\<rparr>) [rq] = Some e \<longrightarrow>
            client_Do redirecting_host cl rq = Inl (ErrorfW ''Get "http://example.com/new": '' e)\<close>
    by (simp add: redirecting_host_def)
  note t = redirect_disabled[OF h1 h2 h3 h4 h5, where nd = True and w = caller_world
      and nxt = \<open>\<lambda>rq. rq\<lparr>URL := ''http://example.com/new''\<rparr>\<close> and via = "\<lambda>rq. [rq]"
      and pfx = \<open>\<lambda>rq. ''Get "http://example.com/new": ''\<close>]
  have plain: \<open>fst (request redirecting_host (WithClient (Some 1) New) 0 ''http://example.com/old''
            False DNil True caller_world) = Inr ''moved here''\<close>
    by (simp add: request_eval redirecting_host_def host_eval caller_world_def caller_client_def)
  have direct: \<open>fst (request redirecting_host ?c 0 ''http://example.com/old''
            False DNil True caller_world) = Inl (ErrorfW ''Get "http://example.com/new": '' ErrRedirect)\<close>
    by (simp add: request_eval redirecting_host_def host_eval caller_world_def caller_client_def)
  from t hc have "\<exists>p. fst (request redirecting_host ?c 0 ''http://example.com/old''
            False DNil True caller_world) = Inl (ErrorfW p ErrRedirect)
          \<and> errors_Is (ErrorfW p ErrRedirect) ErrRedirect"
    by blast
  then have direct': \<open>fst (request redirecting_host ?c 0 ''http://example.com/old''
            False DNil True caller_world) = Inl (ErrorfW ''Get "http://example.com/new": '' ErrRedirect)\<close>
    using direct by simp
  show ?thesis
    using h1 h2 h3 h4 lf plain direct' t
    by (simp add: caller_world_def caller_client_def demo_world_def host_eval)
qed

end
